theory Spec2Isabelle
  imports Main
begin

section \<open>Values, responses and the request context\<close>

text \<open>
  The handlers of \<^verbatim>\<open>services/registry/handlers/maintainers.js\<close> are asynchronous
  functions \<^verbatim>\<open>(context, params) => response\<close>. They read the route parameters, call the
  storage service through \<^verbatim>\<open>context.storageApi\<close>, query and update the
  \<^verbatim>\<open>Maintainer\<close> table, write to \<^verbatim>\<open>context.logger\<close> and return a response. Each
  handler is embedded as a function from the context, the parameters and the world
  (table, log, clock) to a result and the new world; an exception thrown by the handler
  is the \<open>Inl\<close> branch of the result. The steps of a handler run in the order written,
  with no other request in between.
\<close>

text \<open>The JavaScript values that the handlers read from a rejection and pass on.\<close>

datatype jsval = Undefined | Null | Num int | Str string

text \<open>Truthiness, as \<^verbatim>\<open>if (x)\<close> and \<^verbatim>\<open>x || y\<close> read it.\<close>

fun truthy :: "jsval \<Rightarrow> bool" where
  "truthy Undefined = False"
| "truthy Null = False"
| "truthy (Num n) = (n \<noteq> 0)"
| "truthy (Str s) = (s \<noteq> [])"

text \<open>
  The value a storage call rejects with: an error object, of which the handlers read
  \<^verbatim>\<open>err.status\<close>, \<^verbatim>\<open>err.code\<close> and \<^verbatim>\<open>err.message\<close>. An object is truthy,
  so \<^verbatim>\<open>if (err)\<close> holds exactly when the call was rejected.
\<close>

record storage_error =
  err_status :: jsval
  err_code :: jsval
  err_message :: jsval

text \<open>
  \<^verbatim>\<open>response.error(message, status)\<close>, \<^verbatim>\<open>response.message(text)\<close> and
  \<^verbatim>\<open>response.json({ objects })\<close> of the transport library, kept as the call and its
  arguments.
\<close>

datatype response =
    ResponseError string jsval
  | ResponseMessage string
  | ResponseJson "string list"

datatype js_exception =
    ReferenceError string
  | TypeError string
  | MultipleObjectsReturned

datatype log_arg = LogVal jsval | LogErr storage_error

datatype log_entry = LoggerError log_arg | LoggerInfo string

text \<open>
  Modelled from the spec: the \<^verbatim>\<open>Maintainer\<close> model (\<^verbatim>\<open>models/maintainer.js\<close>) is not
  among the sources. A row has the primary key that \<^verbatim>\<open>decline\<close> reads as
  \<^verbatim>\<open>invitation.id\<close>, the columns that \<^verbatim>\<open>decline\<close> queries and updates, and the
  remaining attributes of the spec's data model.
\<close>

record maintainer =
  row_id :: nat
  namespace_id :: nat
  package_id :: nat
  active :: bool
  accepted :: bool
  created :: nat
  modified :: nat
  invited_by :: nat

text \<open>
  \<^verbatim>\<open>context.member\<close> and \<^verbatim>\<open>context.pkg\<close> are rows of the \<^verbatim>\<open>Namespace\<close> and
  \<^verbatim>\<open>Package\<close> models; the handlers read only their \<^verbatim>\<open>id\<close>.
\<close>

record namespace_row =
  namespace_pk :: nat

record package_row =
  package_pk :: nat

record user =
  user_name :: string

text \<open>
  \<^verbatim>\<open>context.storageApi\<close>: the client of the storage service. Each call takes the fields
  of the object literal the handler passes, in the order written there, and settles as
  rejected (\<open>Inl\<close>) or resolved (\<open>Inr\<close>).
\<close>

record storage_api =
  getActiveMaintainers :: "string \<times> string \<times> string \<times> nat \<Rightarrow> storage_error + string list"
  inviteMaintainer :: "string \<times> string \<times> string \<times> string \<times> string \<Rightarrow> storage_error + jsval"
  removeMaintainer :: "string \<times> string \<times> string \<times> string \<times> string \<Rightarrow> storage_error + jsval"
  acceptMaintainerInvite :: "string \<times> string \<times> string \<times> string \<times> string \<Rightarrow> storage_error + jsval"

text \<open>
  The request context. \<^verbatim>\<open>context.user\<close> is attached by the authentication layer;
  \<^verbatim>\<open>context.member\<close>, \<^verbatim>\<open>context.pkg\<close> and \<^verbatim>\<open>context.invitee\<close> are attached by
  the decorators that wrap a handler and are undefined (\<open>None\<close>) before.
\<close>

record request_context =
  ctx_user :: user
  ctx_member :: "namespace_row option"
  ctx_pkg :: "package_row option"
  ctx_invitee :: "namespace_row option"
  storageApi :: storage_api

text \<open>The route parameters; a route binds those its pattern names.\<close>

record params =
  namespace :: string
  host :: string
  name :: string
  invitee :: string
  member :: string

text \<open>
  What a handler can change or observe outside its arguments: the rows of the
  \<^verbatim>\<open>Maintainer\<close> table, what was written to \<^verbatim>\<open>context.logger\<close>, and the time
  \<^verbatim>\<open>new Date()\<close> reads.
\<close>

record world =
  Maintainer_objects :: "maintainer list"
  logger :: "log_entry list"
  clock :: nat

type_synonym handler =
  "request_context \<Rightarrow> params \<Rightarrow> world \<Rightarrow> (js_exception + response) \<times> world"

definition logger_error :: "log_arg \<Rightarrow> world \<Rightarrow> world" where
  "logger_error a w = w\<lparr>logger := logger w @ [LoggerError a]\<rparr>"

definition logger_info :: "string \<Rightarrow> world \<Rightarrow> world" where
  "logger_info s w = w\<lparr>logger := logger w @ [LoggerInfo s]\<rparr>"

section \<open>The listing handler\<close>

text \<open>
  \<^verbatim>\<open>maintainers\<close> (lines 35-56). The resolved value is bound to the local
  \<^verbatim>\<open>maintainers\<close>, but the last line returns \<^verbatim>\<open>response.json({ objects })\<close>, and no
  binding of \<^verbatim>\<open>objects\<close> is in scope: evaluating the shorthand property throws a
  ReferenceError before \<^verbatim>\<open>response.json\<close> is called.
\<close>

definition maintainers :: handler where
  \<open>maintainers ctx ps w =
     (case getActiveMaintainers (storageApi ctx) (namespace ps, host ps, name ps, 0) of
        Inl err \<Rightarrow>
          if err_status err = Num 404 then
            (Inr (ResponseError
                    (''"'' @ namespace ps @ ''@'' @ host ps @ ''/'' @ name ps @ ''" does not exist.'')
                    (Num 404)), w)
          else
            (Inr (ResponseError
                    (''Caught error fetching maintainers for "'' @ namespace ps @ ''@'' @ host ps
                       @ ''/'' @ name ps @ ''".'')
                    (Num 500)),
             logger_error (if truthy (err_message err) then LogVal (err_message err) else LogErr err) w)
      | Inr maintainers \<Rightarrow> (Inl (ReferenceError ''objects''), w))\<close>

section \<open>Inviting and removing a maintainer\<close>

text \<open>
  \<^verbatim>\<open>invite\<close> (lines 60-93). On a rejection the message is looked up in an object
  literal indexed by \<^verbatim>\<open>err.code\<close>; \<^verbatim>\<open>msg || ...\<close> falls back to the generic
  text. The second argument of \<^verbatim>\<open>response.error\<close>, its status, is \<^verbatim>\<open>err.code\<close>.
  Nothing is logged on this path. A code that is not a string converts to a property key
  (\<^verbatim>\<open>"undefined"\<close>, \<^verbatim>\<open>"null"\<close>, a numeral) that is not a key of the literal.
  The properties that an object literal inherits (\<^verbatim>\<open>constructor\<close>, \<^verbatim>\<open>toString\<close>)
  are left out: the codes of the storage service are not among them.
\<close>

fun property_key :: "jsval \<Rightarrow> string option" where
  "property_key (Str k) = Some k"
| "property_key _ = None"

definition or_else :: "string option \<Rightarrow> string \<Rightarrow> string" where
  "or_else msg dflt = (case msg of None \<Rightarrow> dflt | Some m \<Rightarrow> if m \<noteq> [] then m else dflt)"

definition invite :: handler where
  \<open>invite ctx ps w =
     (case inviteMaintainer (storageApi ctx)
             (namespace ps, host ps, name ps, user_name (ctx_user ctx), invitee ps) of
        Inl err \<Rightarrow>
          (let msg = (case property_key (err_code err) of
                        None \<Rightarrow> None
                      | Some k \<Rightarrow> map_of
                          [(''invite.invitee_dne'', ''Unknown namespace: "'' @ invitee ps @ ''".''),
                           (''invite.package_dne'', ''Unknown package: "'' @ invitee ps @ ''".''),
                           (''invite.already_accepted'',
                              ''Namespace "'' @ invitee ps @ ''" is already a member.''),
                           (''invite.already_declined'',
                              ''Namespace "'' @ invitee ps @ ''" has declined this invite.'')] k)
           in (Inr (ResponseError
                      (or_else msg (''Caught error inviting "'' @ invitee ps @ ''" to ''
                                      @ namespace ps @ ''@'' @ host ps @ ''/'' @ name ps))
                      (err_code err)), w))
      | Inr resolved \<Rightarrow>
          (Inr (ResponseMessage
                  (invitee ps @ '' invited to join the maintainers of '' @ namespace ps @ ''@''
                     @ host ps @ ''/'' @ name ps @ ''.'')),
           logger_info
             (invitee ps @ '' invited to join the maintainers of '' @ namespace ps @ ''@''
                @ host ps @ ''/'' @ name ps @ '' by '' @ user_name (ctx_user ctx)) w))\<close>

text \<open>
  \<^verbatim>\<open>remove\<close> (lines 95-131), named \<open>remove_maintainer\<close> here. Line 110 of the source
  lacks the comma that ends its entry of the object literal; the literal is read with the
  comma, as five entries.
\<close>

definition remove_maintainer :: handler where
  \<open>remove_maintainer ctx ps w =
     (case removeMaintainer (storageApi ctx)
             (namespace ps, host ps, name ps, user_name (ctx_user ctx), invitee ps) of
        Inl err \<Rightarrow>
          (let msg = (case property_key (err_code err) of
                        None \<Rightarrow> None
                      | Some k \<Rightarrow> map_of
                          [(''invite.invitee_dne'', ''Unknown namespace: "'' @ invitee ps @ ''".''),
                           (''invite.invitee_not_maintainer'',
                              invitee ps @ '' was not a maintainer of '' @ namespace ps @ ''@''
                                @ host ps @ ''/'' @ name ps @ ''.''),
                           (''invite.package_dne'', ''Unknown package: "'' @ invitee ps @ ''".''),
                           (''invite.already_accepted'',
                              ''Namespace "'' @ invitee ps @ ''" is already a member.''),
                           (''invite.already_declined'',
                              ''Namespace "'' @ invitee ps @ ''" has declined this invite.'')] k)
           in (Inr (ResponseError
                      (or_else msg (''Caught error inviting "'' @ invitee ps @ ''" to ''
                                      @ namespace ps @ ''@'' @ host ps @ ''/'' @ name ps))
                      (err_code err)), w))
      | Inr resolved \<Rightarrow>
          (Inr (ResponseMessage
                  (invitee ps @ '' removed as maintainer of '' @ namespace ps @ ''@''
                     @ host ps @ ''/'' @ name ps @ ''.'')),
           logger_info
             (invitee ps @ '' removed as maintainer of '' @ namespace ps @ ''@''
                @ host ps @ ''/'' @ name ps @ '' by '' @ user_name (ctx_user ctx)) w))\<close>

section \<open>Accepting and declining an invitation\<close>

text \<open>
  \<^verbatim>\<open>accept\<close> (lines 133-152). The rejection is destructured into \<^verbatim>\<open>err\<close>, which no
  later statement reads: both outcomes of the storage call continue with the log line and
  the success message.
\<close>

definition accept :: handler where
  \<open>accept ctx ps w =
     (let err = (case acceptMaintainerInvite (storageApi ctx)
                        (namespace ps, host ps, name ps, member ps, user_name (ctx_user ctx)) of
                   Inl xs \<Rightarrow> Some xs
                 | Inr xs \<Rightarrow> None)
      in (Inr (ResponseMessage
                 (member ps @ '' is now a maintainer for '' @ namespace ps @ ''@'' @ host ps
                    @ ''/'' @ name ps)),
          logger_info
            (user_name (ctx_user ctx) @ '' accepted the invitation for '' @ member ps
               @ '' to join '' @ namespace ps @ ''@'' @ host ps @ ''/'' @ name ps) w))\<close>

text \<open>
  The two queries of the object-relational mapper that \<^verbatim>\<open>decline\<close> runs on
  \<^verbatim>\<open>Maintainer.objects\<close>. \<^verbatim>\<open>get(clause)\<close> resolves to the one row that matches,
  rejects with \<^verbatim>\<open>NotFound\<close> when no row matches and with
  \<^verbatim>\<open>MultipleObjectsReturned\<close> when several do.
  \<^verbatim>\<open>filter(clause).update(values)\<close> writes the values into every row that matches.
\<close>

datatype orm_error = NotFound | MultipleObjects

definition objects_get :: "(maintainer \<Rightarrow> bool) \<Rightarrow> maintainer list \<Rightarrow> orm_error + maintainer" where
  "objects_get clause rows =
     (case filter clause rows of
        [] \<Rightarrow> Inl NotFound
      | [r] \<Rightarrow> Inr r
      | r # r' # rs \<Rightarrow> Inl MultipleObjects)"

definition objects_filter_update ::
  "(maintainer \<Rightarrow> bool) \<Rightarrow> (maintainer \<Rightarrow> maintainer) \<Rightarrow> maintainer list \<Rightarrow> maintainer list" where
  "objects_filter_update clause values rows = map (\<lambda>r. if clause r then values r else r) rows"

text \<open>\<^verbatim>\<open>.catch(Maintainer.objects.NotFound, () => null)\<close>: only that rejection becomes null.\<close>

fun catch_NotFound :: "orm_error + maintainer \<Rightarrow> js_exception + maintainer option" where
  "catch_NotFound (Inl NotFound) = Inr None"
| "catch_NotFound (Inl MultipleObjects) = Inl MultipleObjectsReturned"
| "catch_NotFound (Inr r) = Inr (Some r)"

text \<open>
  \<^verbatim>\<open>decline\<close> (lines 154-185). Reading \<^verbatim>\<open>context.member.id\<close> or
  \<^verbatim>\<open>context.pkg.id\<close> throws a TypeError when no decorator has attached the row.
\<close>

definition decline :: handler where
  \<open>decline ctx ps w =
     (case ctx_member ctx of
        None \<Rightarrow> (Inl (TypeError ''context.member''), w)
      | Some m \<Rightarrow>
     (case ctx_pkg ctx of
        None \<Rightarrow> (Inl (TypeError ''context.pkg''), w)
      | Some p \<Rightarrow>
     (case catch_NotFound
             (objects_get
                (\<lambda>r. namespace_id r = namespace_pk m \<and> package_id r = package_pk p
                      \<and> active r = True \<and> accepted r = False)
                (Maintainer_objects w)) of
        Inl e \<Rightarrow> (Inl e, w)
      | Inr None \<Rightarrow> (Inr (ResponseError ''invitation not found'' (Num 404)), w)
      | Inr (Some invitation) \<Rightarrow>
          (let w1 = w\<lparr>Maintainer_objects :=
                        objects_filter_update
                          (\<lambda>r. row_id r = row_id invitation)
                          (\<lambda>r. r\<lparr>modified := clock w, active := False\<rparr>)
                          (Maintainer_objects w)\<rparr>;
               w2 = logger_info
                      (user_name (ctx_user ctx) @ '' declined the invitation for '' @ member ps
                         @ '' to join '' @ namespace ps @ ''@'' @ host ps @ ''/'' @ name ps) w1
           in (Inr (ResponseMessage
                      (''You have declined the invitation for '' @ member ps @ '' to join ''
                         @ namespace ps @ ''@'' @ host ps @ ''/'' @ name ps)), w2)))))\<close>

section \<open>The decorators and the route table\<close>

text \<open>
  Modelled from the spec: the decorators \<^verbatim>\<open>findInvitee\<close>, \<^verbatim>\<open>canWrite\<close>,
  \<^verbatim>\<open>packageExists\<close> and \<^verbatim>\<open>isNamespaceMember\<close> (\<^verbatim>\<open>decorators/*.js\<close>) are not among
  the sources. The spec gives the collaborators they consult (the lookups of a package and
  of a namespace, and the predicates CanWritePackage and IsNamespaceMember), says that a
  lookup that finds nothing fails with PackageNotFound or InviteeNotFound, and that a false
  predicate short-circuits with an authorization failure and performs no mutation. A
  decorator that passes attaches what it resolved to the context and calls the handler it
  wraps.
\<close>

record collaborators =
  PackageLookup :: "string \<times> string \<times> string \<Rightarrow> package_row option"
  NamespaceLookup :: "string \<Rightarrow> namespace_row option"
  CanWritePackage :: "user \<Rightarrow> string \<times> string \<times> string \<Rightarrow> bool"
  IsNamespaceMember :: "user \<Rightarrow> string \<Rightarrow> bool"

datatype failure = PackageNotFound | InviteeNotFound | Unauthorized

text \<open>
  Modelled from the spec: the response of a failure raised by a decorator, with the status
  of the spec's failure-to-status mapping (404 for the two lookups, 403 for Unauthorized).
\<close>

fun failure_response :: "failure \<Rightarrow> response" where
  "failure_response PackageNotFound = ResponseError ''PackageNotFound'' (Num 404)"
| "failure_response InviteeNotFound = ResponseError ''InviteeNotFound'' (Num 404)"
| "failure_response Unauthorized = ResponseError ''Unauthorized'' (Num 403)"

definition findInvitee :: "collaborators \<Rightarrow> handler \<Rightarrow> handler" where
  "findInvitee env next ctx ps w =
     (case NamespaceLookup env (invitee ps) of
        None \<Rightarrow> (Inr (failure_response InviteeNotFound), w)
      | Some n \<Rightarrow> next (ctx\<lparr>ctx_invitee := Some n\<rparr>) ps w)"

definition canWrite :: "collaborators \<Rightarrow> handler \<Rightarrow> handler" where
  "canWrite env next ctx ps w =
     (if CanWritePackage env (ctx_user ctx) (namespace ps, host ps, name ps)
      then next ctx ps w
      else (Inr (failure_response Unauthorized), w))"

definition packageExists :: "collaborators \<Rightarrow> handler \<Rightarrow> handler" where
  "packageExists env next ctx ps w =
     (case PackageLookup env (namespace ps, host ps, name ps) of
        None \<Rightarrow> (Inr (failure_response PackageNotFound), w)
      | Some p \<Rightarrow> next (ctx\<lparr>ctx_pkg := Some p\<rparr>) ps w)"

definition isNamespaceMember :: "collaborators \<Rightarrow> handler \<Rightarrow> handler" where
  "isNamespaceMember env next ctx ps w =
     (if IsNamespaceMember env (ctx_user ctx) (member ps)
      then next (ctx\<lparr>ctx_member := NamespaceLookup env (member ps)\<rparr>) ps w
      else (Inr (failure_response Unauthorized), w))"

text \<open>
  \<^verbatim>\<open>module.exports\<close> (lines 12-33): the five routes, each a method, a path pattern and
  the handler with the decorators the source wraps around it.
\<close>

datatype http_method = GET | POST | DEL

definition module_exports :: "collaborators \<Rightarrow> (http_method \<times> string \<times> handler) list" where
  "module_exports env =
     [(GET, ''/v1/packages/package/:namespace([^@]+)@:host/:name/maintainers'',
         maintainers),
      (POST, ''/v1/packages/package/:namespace([^@]+)@:host/:name/maintainers/:invitee'',
         findInvitee env (canWrite env invite)),
      (DEL, ''/v1/packages/package/:namespace([^@]+)@:host/:name/maintainers/:invitee'',
         findInvitee env (canWrite env remove_maintainer)),
      (POST, ''/v1/packages/package/:namespace([^@]+)@:host/:name/invitation/:member'',
         packageExists env (isNamespaceMember env accept)),
      (DEL, ''/v1/packages/package/:namespace([^@]+)@:host/:name/invitation/:member'',
         packageExists env (isNamespaceMember env decline))]"

definition route_handler :: "collaborators \<Rightarrow> nat \<Rightarrow> handler" where
  "route_handler env i = snd (snd (module_exports env ! i))"

section \<open>Concrete requests\<close>

text \<open>
  The package and the namespaces of the spec's end-to-end scenarios: package
  \<^verbatim>\<open>acme@github/widget\<close>, invitee and member \<^verbatim>\<open>bob\<close>, caller \<^verbatim>\<open>alice\<close>.
\<close>

definition widget_params :: params where
  "widget_params =
     \<lparr>namespace = ''acme'', host = ''github'', name = ''widget'', invitee = ''bob'',
      member = ''bob''\<rparr>"

definition rejecting :: "storage_error \<Rightarrow> storage_api" where
  "rejecting err =
     \<lparr>getActiveMaintainers = (\<lambda>q. Inl err), inviteMaintainer = (\<lambda>q. Inl err),
      removeMaintainer = (\<lambda>q. Inl err), acceptMaintainerInvite = (\<lambda>q. Inl err)\<rparr>"

definition resolving :: storage_api where
  "resolving =
     \<lparr>getActiveMaintainers = (\<lambda>q. Inr [''bob'']), inviteMaintainer = (\<lambda>q. Inr Undefined),
      removeMaintainer = (\<lambda>q. Inr Undefined), acceptMaintainerInvite = (\<lambda>q. Inr Undefined)\<rparr>"

definition alice_context :: "storage_api \<Rightarrow> request_context" where
  "alice_context api =
     \<lparr>ctx_user = \<lparr>user_name = ''alice''\<rparr>, ctx_member = None, ctx_pkg = None,
      ctx_invitee = None, storageApi = api\<rparr>"

definition bob_context :: request_context where
  "bob_context =
     \<lparr>ctx_user = \<lparr>user_name = ''bob''\<rparr>, ctx_member = Some \<lparr>namespace_pk = 7\<rparr>,
      ctx_pkg = Some \<lparr>package_pk = 3\<rparr>, ctx_invitee = None, storageApi = resolving\<rparr>"

definition package_missing :: storage_error where
  "package_missing =
     \<lparr>err_status = Num 404, err_code = Str ''package.dne'',
      err_message = Str ''package not found''\<rparr>"

definition invitation_missing :: storage_error where
  "invitation_missing =
     \<lparr>err_status = Num 404, err_code = Str ''invite.invitation_dne'',
      err_message = Str ''no pending invitation''\<rparr>"

definition already_accepted :: storage_error where
  "already_accepted =
     \<lparr>err_status = Num 409, err_code = Str ''invite.already_accepted'',
      err_message = Str ''maintainer already accepted''\<rparr>"

definition connection_refused :: storage_error where
  "connection_refused =
     \<lparr>err_status = Undefined, err_code = Str ''ECONNREFUSED'',
      err_message = Str ''connect ECONNREFUSED 10.0.0.5:5432''\<rparr>"

definition pending_row :: maintainer where
  "pending_row =
     \<lparr>row_id = 11, namespace_id = 7, package_id = 3, active = True, accepted = False,
      created = 100, modified = 100, invited_by = 1\<rparr>"

definition accepted_row :: maintainer where
  "accepted_row =
     \<lparr>row_id = 12, namespace_id = 8, package_id = 3, active = True, accepted = True,
      created = 50, modified = 60, invited_by = 1\<rparr>"

definition empty_world :: world where
  "empty_world = \<lparr>Maintainer_objects = [], logger = [], clock = 1000\<rparr>"

definition invited_world :: world where
  "invited_world = \<lparr>Maintainer_objects = [accepted_row, pending_row], logger = [], clock = 1000\<rparr>"

definition nobody_allowed :: collaborators where
  "nobody_allowed =
     \<lparr>PackageLookup = (\<lambda>q. Some \<lparr>package_pk = 3\<rparr>),
      NamespaceLookup = (\<lambda>n. Some \<lparr>namespace_pk = 7\<rparr>),
      CanWritePackage = (\<lambda>u q. False),
      IsNamespaceMember = (\<lambda>u n. False)\<rparr>"

section \<open>The outcomes of \<^verbatim>\<open>decline\<close>\<close>

text \<open>
  \<^verbatim>\<open>decline\<close> ends in one of five ways: a TypeError when \<^verbatim>\<open>context.member\<close> or
  \<^verbatim>\<open>context.pkg\<close> is missing, the 404 response when no row matches the clause, the
  rethrown rejection when several rows match, and the confirmation when exactly one does.
  Only the last changes the world. The listing handler logs a rejection that is not a 404
  before it answers with the generic message. The routes of \<^verbatim>\<open>module.exports\<close> are
  read off the table by position.
\<close>

lemma decline_found:
  assumes "ctx_member ctx = Some m" "ctx_pkg ctx = Some p"
    and "filter (\<lambda>r. namespace_id r = namespace_pk m \<and> package_id r = package_pk p
                      \<and> active r = True \<and> accepted r = False) (Maintainer_objects w) = [invitation]"
  shows "decline ctx ps w =
    (Inr (ResponseMessage
            (''You have declined the invitation for '' @ member ps @ '' to join ''
               @ namespace ps @ ''@'' @ host ps @ ''/'' @ name ps)),
     w\<lparr>Maintainer_objects :=
          map (\<lambda>r. if row_id r = row_id invitation then r\<lparr>modified := clock w, active := False\<rparr> else r)
              (Maintainer_objects w),
        logger := logger w @
          [LoggerInfo (user_name (ctx_user ctx) @ '' declined the invitation for '' @ member ps
                         @ '' to join '' @ namespace ps @ ''@'' @ host ps @ ''/'' @ name ps)]\<rparr>)"
  using assms
  by (simp add: decline_def objects_get_def objects_filter_update_def logger_info_def)

lemma decline_none:
  assumes "ctx_member ctx = Some m" "ctx_pkg ctx = Some p"
    and "filter (\<lambda>r. namespace_id r = namespace_pk m \<and> package_id r = package_pk p
                      \<and> active r = True \<and> accepted r = False) (Maintainer_objects w) = []"
  shows "decline ctx ps w = (Inr (ResponseError ''invitation not found'' (Num 404)), w)"
  using assms by (simp add: decline_def objects_get_def)

lemma decline_several:
  assumes "ctx_member ctx = Some m" "ctx_pkg ctx = Some p"
    and "filter (\<lambda>r. namespace_id r = namespace_pk m \<and> package_id r = package_pk p
                      \<and> active r = True \<and> accepted r = False) (Maintainer_objects w) = r # r' # rs"
  shows "decline ctx ps w = (Inl MultipleObjectsReturned, w)"
  using assms by (simp add: decline_def objects_get_def)

lemma decline_no_member: "ctx_member ctx = None \<Longrightarrow> decline ctx ps w = (Inl (TypeError ''context.member''), w)"
  by (simp add: decline_def)

lemma decline_no_pkg: "ctx_member ctx = Some m \<Longrightarrow> ctx_pkg ctx = None \<Longrightarrow> decline ctx ps w = (Inl (TypeError ''context.pkg''), w)"
  by (simp add: decline_def)

lemma decline_message_cases:
  assumes "decline ctx ps w = (Inr (ResponseMessage msg), w')"
  obtains m p invitation where "ctx_member ctx = Some m" "ctx_pkg ctx = Some p"
    "filter (\<lambda>r. namespace_id r = namespace_pk m \<and> package_id r = package_pk p
                      \<and> active r = True \<and> accepted r = False) (Maintainer_objects w) = [invitation]"
proof (cases "ctx_member ctx")
  case None
  with assms show ?thesis by (simp add: decline_no_member)
next
  case (Some m)
  note m = this
  show ?thesis
  proof (cases "ctx_pkg ctx")
    case None
    with assms m show ?thesis by (simp add: decline_no_pkg)
  next
    case (Some p)
    let ?f = "filter (\<lambda>r. namespace_id r = namespace_pk m \<and> package_id r = package_pk p
                      \<and> active r = True \<and> accepted r = False) (Maintainer_objects w)"
    show ?thesis
    proof (cases ?f)
      case Nil
      with assms m Some show ?thesis by (simp add: decline_none)
    next
      case (Cons r rs)
      show ?thesis
      proof (cases rs)
        case Nil
        with Cons m Some that show ?thesis by blast
      next
        case (Cons r' rs')
        with \<open>?f = r # rs\<close> assms m Some show ?thesis by (simp add: decline_several [where r = r and r' = r' and rs = rs'])
      qed
    qed
  qed
qed


lemma maintainers_unexpected_error:
  assumes "getActiveMaintainers (storageApi ctx) (namespace ps, host ps, name ps, 0) = Inl err"
    and "err_status err \<noteq> Num 404"
  shows \<open>maintainers ctx ps w =
           (Inr (ResponseError
                   (''Caught error fetching maintainers for "'' @ namespace ps @ ''@'' @ host ps
                      @ ''/'' @ name ps @ ''".'')
                   (Num 500)),
            w\<lparr>logger := logger w @
                 [LoggerError (if truthy (err_message err) then LogVal (err_message err)
                               else LogErr err)]\<rparr>)\<close>
  using assms by (simp add: maintainers_def logger_error_def)

lemma distinct_row_id_eq:
  "distinct (map row_id rows) \<Longrightarrow> x \<in> set rows \<Longrightarrow> y \<in> set rows \<Longrightarrow> row_id x = row_id y \<Longrightarrow> x = y"
  by (auto simp: distinct_map dest: inj_onD)

lemma route_handler_simps:
  "route_handler env 0 = maintainers"
  "route_handler env 1 = findInvitee env (canWrite env invite)"
  "route_handler env (Suc 0) = findInvitee env (canWrite env invite)"
  "route_handler env 2 = findInvitee env (canWrite env remove_maintainer)"
  "route_handler env 3 = packageExists env (isNamespaceMember env accept)"
  "route_handler env 4 = packageExists env (isNamespaceMember env decline)"
  by (simp_all add: route_handler_def module_exports_def)

section \<open>The listing handler: claims C7 and C2\<close>

text \<open>
  Claim C7. When the package does not resolve, that is when the storage call is rejected
  with \<^verbatim>\<open>err.status === 404\<close>, the listing handler returns the error response with
  status 404 whose message names the package as \<^verbatim>\<open>"namespace@host/name"\<close>; nothing is
  logged and nothing changes.
\<close>

theorem maintainers_package_not_found:
  assumes "getActiveMaintainers (storageApi ctx) (namespace ps, host ps, name ps, 0) = Inl err"
    and "err_status err = Num 404"
  shows \<open>maintainers ctx ps w =
           (Inr (ResponseError
                   (''"'' @ namespace ps @ ''@'' @ host ps @ ''/'' @ name ps @ ''" does not exist.'')
                   (Num 404)), w)\<close>
  using assms by (simp add: maintainers_def)

theorem maintainers_package_not_found_witness:
  \<open>getActiveMaintainers (storageApi (alice_context (rejecting package_missing)))
      (namespace widget_params, host widget_params, name widget_params, 0) = Inl package_missing
   \<and> err_status package_missing = Num 404
   \<and> maintainers (alice_context (rejecting package_missing)) widget_params invited_world =
       (Inr (ResponseError ''"acme@github/widget" does not exist.'' (Num 404)), invited_world)\<close>
proof -
  have a: "getActiveMaintainers (storageApi (alice_context (rejecting package_missing)))
      (namespace widget_params, host widget_params, name widget_params, 0) = Inl package_missing"
    by (simp add: alice_context_def rejecting_def)
  have b: "err_status package_missing = Num 404"
    by (simp add: package_missing_def)
  show ?thesis
    using a b maintainers_package_not_found [OF a b, of invited_world]
    by (simp add: widget_params_def)
qed

text \<open>
  Claim C2. The claim says that a resolved storage call's value is returned as the success
  payload. The handler does not do that: with the storage call resolving to
  \<^verbatim>\<open>["bob"]\<close> for \<^verbatim>\<open>acme@github/widget\<close> it throws the ReferenceError for
  \<^verbatim>\<open>objects\<close> and returns no response.
\<close>

theorem maintainers_resolved_throws:
  "getActiveMaintainers (storageApi (alice_context resolving)) (''acme'', ''github'', ''widget'', 0)
     = Inr [''bob'']
   \<and> maintainers (alice_context resolving) widget_params empty_world
     = (Inl (ReferenceError ''objects''), empty_world)"
  by (simp add: maintainers_def alice_context_def resolving_def widget_params_def)

section \<open>Accepting: claim C1\<close>

text \<open>
  Claim C1. The claim says that accepting fails with InvitationNotFound when no Pending
  record exists. The handler never reads the rejection: with the storage call rejected
  (status 404, no pending invitation) it writes the log line and returns the success
  message.
\<close>

theorem accept_ignores_rejection:
  "acceptMaintainerInvite (storageApi (alice_context (rejecting invitation_missing)))
       (''acme'', ''github'', ''widget'', ''bob'', ''alice'') = Inl invitation_missing
   \<and> accept (alice_context (rejecting invitation_missing)) widget_params empty_world =
       (Inr (ResponseMessage ''bob is now a maintainer for acme@github/widget''),
        \<lparr>Maintainer_objects = [],
         logger = [LoggerInfo ''alice accepted the invitation for bob to join acme@github/widget''],
         clock = 1000\<rparr>)"
  by (simp add: accept_def alice_context_def rejecting_def widget_params_def empty_world_def
        logger_info_def)

section \<open>Inviting and removing: claims C5 and C6\<close>

text \<open>
  Claim C5. The claim says that the status of an error response of invite and remove
  follows the failure-to-status mapping (409 for AlreadyAccepted). Both handlers pass
  \<^verbatim>\<open>err.code\<close> as the status: for a rejection with code
  \<^verbatim>\<open>invite.already_accepted\<close> and status 409 the status of the response is the string
  \<^verbatim>\<open>invite.already_accepted\<close>.
\<close>

theorem invite_remove_status_is_error_code:
  \<open>invite (alice_context (rejecting already_accepted)) widget_params empty_world =
     (Inr (ResponseError ''Namespace "bob" is already a member.'' (Str ''invite.already_accepted'')),
      empty_world)
   \<and> remove_maintainer (alice_context (rejecting already_accepted)) widget_params empty_world =
     (Inr (ResponseError ''Namespace "bob" is already a member.'' (Str ''invite.already_accepted'')),
      empty_world)\<close>
  by (simp add: invite_def remove_maintainer_def alice_context_def rejecting_def widget_params_def
        already_accepted_def or_else_def)

text \<open>
  Claim C6. The claim says that an unmapped storage error is logged in invite and remove
  as it is in the listing handler. For a rejection with the unmapped code
  \<^verbatim>\<open>ECONNREFUSED\<close> both handlers return the generic message and leave the log as it
  was, empty.
\<close>

theorem invite_remove_unmapped_error_not_logged:
  \<open>invite (alice_context (rejecting connection_refused)) widget_params empty_world =
     (Inr (ResponseError ''Caught error inviting "bob" to acme@github/widget'' (Str ''ECONNREFUSED'')),
      empty_world)
   \<and> remove_maintainer (alice_context (rejecting connection_refused)) widget_params empty_world =
     (Inr (ResponseError ''Caught error inviting "bob" to acme@github/widget'' (Str ''ECONNREFUSED'')),
      empty_world)
   \<and> logger empty_world = []\<close>
  by (simp add: invite_def remove_maintainer_def alice_context_def rejecting_def widget_params_def
        connection_refused_def or_else_def empty_world_def)

section \<open>Declining: claims C3, C9, C4 and C10\<close>

text \<open>
  Claim C3. When no row of the table has the namespace of \<^verbatim>\<open>context.member\<close>, the
  package of \<^verbatim>\<open>context.pkg\<close>, \<^verbatim>\<open>active = true\<close> and \<^verbatim>\<open>accepted = false\<close>,
  decline returns the error response \<^verbatim>\<open>invitation not found\<close> with status 404, whoever
  the caller \<^verbatim>\<open>context.user\<close> is.
\<close>

theorem decline_invitation_not_found:
  assumes "ctx_member ctx = Some m" and "ctx_pkg ctx = Some p"
    and "\<forall>r \<in> set (Maintainer_objects w).
           \<not> (namespace_id r = namespace_pk m \<and> package_id r = package_pk p
                \<and> active r = True \<and> accepted r = False)"
  shows "decline ctx ps w = (Inr (ResponseError ''invitation not found'' (Num 404)), w)"
proof -
  have "filter (\<lambda>r. namespace_id r = namespace_pk m \<and> package_id r = package_pk p
                      \<and> active r = True \<and> accepted r = False) (Maintainer_objects w) = []"
    using assms(3) by (simp add: filter_empty_conv)
  with assms(1,2) show ?thesis by (rule decline_none)
qed

theorem decline_invitation_not_found_witness:
  "decline (bob_context\<lparr>ctx_user := \<lparr>user_name = ''mallory''\<rparr>\<rparr>) widget_params
      (invited_world\<lparr>Maintainer_objects := [accepted_row, pending_row\<lparr>active := False\<rparr>]\<rparr>)
   = (Inr (ResponseError ''invitation not found'' (Num 404)),
      invited_world\<lparr>Maintainer_objects := [accepted_row, pending_row\<lparr>active := False\<rparr>]\<rparr>)"
  using decline_invitation_not_found
          [of "bob_context\<lparr>ctx_user := \<lparr>user_name = ''mallory''\<rparr>\<rparr>" "\<lparr>namespace_pk = 7\<rparr>"
              "\<lparr>package_pk = 3\<rparr>"
              "invited_world\<lparr>Maintainer_objects := [accepted_row, pending_row\<lparr>active := False\<rparr>]\<rparr>"
              widget_params]
  by (simp add: bob_context_def invited_world_def accepted_row_def pending_row_def)

text \<open>
  Claim C9. When decline returns the error response \<^verbatim>\<open>invitation not found\<close> with
  status 404, the world after the call is the world before it: no row of the table has
  changed and nothing was logged.
\<close>

theorem decline_not_found_no_mutation:
  assumes "decline ctx ps w = (Inr (ResponseError ''invitation not found'' (Num 404)), w')"
  shows "w' = w"
proof (cases "ctx_member ctx")
  case None
  with assms show ?thesis by (simp add: decline_no_member)
next
  case (Some m)
  note m = this
  show ?thesis
  proof (cases "ctx_pkg ctx")
    case None
    with assms m show ?thesis by (simp add: decline_no_pkg)
  next
    case (Some p)
    let ?f = "filter (\<lambda>r. namespace_id r = namespace_pk m \<and> package_id r = package_pk p
                      \<and> active r = True \<and> accepted r = False) (Maintainer_objects w)"
    show ?thesis
    proof (cases ?f)
      case Nil
      with assms m Some show ?thesis by (simp add: decline_none)
    next
      case (Cons r rs)
      show ?thesis
      proof (cases rs)
        case Nil
        with Cons have "?f = [r]" by simp
        from decline_found [OF m Some this, of ps] assms show ?thesis by simp
      next
        case (Cons r' rs')
        with \<open>?f = r # rs\<close> have "?f = r # r' # rs'" by simp
        from decline_several [OF m Some this, of ps] assms show ?thesis by simp
      qed
    qed
  qed
qed

theorem decline_not_found_no_mutation_witness:
  "decline bob_context widget_params
      (invited_world\<lparr>Maintainer_objects := [accepted_row, pending_row\<lparr>accepted := True\<rparr>],
                     logger := [LoggerInfo ''earlier'']\<rparr>)
     = (Inr (ResponseError ''invitation not found'' (Num 404)),
        invited_world\<lparr>Maintainer_objects := [accepted_row, pending_row\<lparr>accepted := True\<rparr>],
                     logger := [LoggerInfo ''earlier'']\<rparr>)
   \<and> Maintainer_objects
        (snd (decline bob_context widget_params
               (invited_world\<lparr>Maintainer_objects := [accepted_row, pending_row\<lparr>accepted := True\<rparr>],
                              logger := [LoggerInfo ''earlier'']\<rparr>)))
     = [accepted_row, pending_row\<lparr>accepted := True\<rparr>]"
proof -
  let ?w = "invited_world\<lparr>Maintainer_objects := [accepted_row, pending_row\<lparr>accepted := True\<rparr>],
                     logger := [LoggerInfo ''earlier'']\<rparr>"
  have a: "decline bob_context widget_params ?w
     = (Inr (ResponseError ''invitation not found'' (Num 404)),
        snd (decline bob_context widget_params ?w))"
    by (simp add: decline_def bob_context_def objects_get_def accepted_row_def pending_row_def)
  from decline_not_found_no_mutation [OF a] have s: "snd (decline bob_context widget_params ?w) = ?w" .
  with a have "decline bob_context widget_params ?w
     = (Inr (ResponseError ''invitation not found'' (Num 404)), ?w)" by simp
  with s show ?thesis by simp
qed

text \<open>
  Claim C4. Let a Pending row exist for the namespace of \<^verbatim>\<open>context.member\<close> and the
  package of \<^verbatim>\<open>context.pkg\<close>. When it is the one row that matches the clause of
  \<^verbatim>\<open>get\<close>, decline succeeds: it returns the confirmation message, appends one
  informational line to the log, and the row has \<^verbatim>\<open>modified\<close> equal to the current
  time and \<^verbatim>\<open>active = false\<close> afterwards. When further rows match, \<^verbatim>\<open>get\<close>
  rejects with \<^verbatim>\<open>MultipleObjectsReturned\<close>, decline does not succeed and changes
  nothing.
\<close>

theorem decline_success_effects:
  assumes "ctx_member ctx = Some m" and "ctx_pkg ctx = Some p"
    and "r \<in> set (Maintainer_objects w)"
    and "namespace_id r = namespace_pk m \<and> package_id r = package_pk p
           \<and> active r = True \<and> accepted r = False"
  shows "(filter (\<lambda>x. namespace_id x = namespace_pk m \<and> package_id x = package_pk p
                       \<and> active x = True \<and> accepted x = False) (Maintainer_objects w) = [r] \<longrightarrow>
            fst (decline ctx ps w) =
              Inr (ResponseMessage
                     (''You have declined the invitation for '' @ member ps @ '' to join ''
                        @ namespace ps @ ''@'' @ host ps @ ''/'' @ name ps))
            \<and> logger (snd (decline ctx ps w)) = logger w @
                 [LoggerInfo (user_name (ctx_user ctx) @ '' declined the invitation for ''
                                @ member ps @ '' to join '' @ namespace ps @ ''@'' @ host ps
                                @ ''/'' @ name ps)]
            \<and> length (Maintainer_objects (snd (decline ctx ps w))) = length (Maintainer_objects w)
            \<and> (\<forall>i < length (Maintainer_objects w).
                  Maintainer_objects w ! i = r \<longrightarrow>
                    modified (Maintainer_objects (snd (decline ctx ps w)) ! i) = clock w
                    \<and> active (Maintainer_objects (snd (decline ctx ps w)) ! i) = False))
       \<and> (filter (\<lambda>x. namespace_id x = namespace_pk m \<and> package_id x = package_pk p
                       \<and> active x = True \<and> accepted x = False) (Maintainer_objects w) \<noteq> [r] \<longrightarrow>
            decline ctx ps w = (Inl MultipleObjectsReturned, w))"
proof -
  let ?P = "\<lambda>x. namespace_id x = namespace_pk m \<and> package_id x = package_pk p
                      \<and> active x = True \<and> accepted x = False"
  let ?f = "filter ?P (Maintainer_objects w)"
  from assms(3,4) have rf: "r \<in> set ?f" by simp
  have one: "?f = [r] \<Longrightarrow> decline ctx ps w =
    (Inr (ResponseMessage
            (''You have declined the invitation for '' @ member ps @ '' to join ''
               @ namespace ps @ ''@'' @ host ps @ ''/'' @ name ps)),
     w\<lparr>Maintainer_objects :=
          map (\<lambda>x. if row_id x = row_id r then x\<lparr>modified := clock w, active := False\<rparr> else x)
              (Maintainer_objects w),
        logger := logger w @
          [LoggerInfo (user_name (ctx_user ctx) @ '' declined the invitation for '' @ member ps
                         @ '' to join '' @ namespace ps @ ''@'' @ host ps @ ''/'' @ name ps)]\<rparr>)"
    by (rule decline_found [OF assms(1,2)])
  have several: "decline ctx ps w = (Inl MultipleObjectsReturned, w)" if ne: "?f \<noteq> [r]"
  proof (cases ?f)
    case Nil
    with rf have "r \<in> set []" by (simp only:)
    then show ?thesis by simp
  next
    case (Cons a as)
    note c = this
    show ?thesis
    proof (cases as)
      case Nil
      with c have fa: "?f = [a]" by (simp only:)
      with rf have "r \<in> set [a]" by (simp only:)
      then have "a = r" by simp
      with fa ne show ?thesis by (simp only:)
    next
      case (Cons b bs)
      with c have "?f = a # b # bs" by (simp only:)
      then show ?thesis by (rule decline_several [OF assms(1,2)])
    qed
  qed
  show ?thesis
  proof (intro conjI impI)
    assume f: "?f = [r]"
    show "fst (decline ctx ps w) =
              Inr (ResponseMessage
                     (''You have declined the invitation for '' @ member ps @ '' to join ''
                        @ namespace ps @ ''@'' @ host ps @ ''/'' @ name ps))"
      by (simp add: one [OF f])
    show "logger (snd (decline ctx ps w)) = logger w @
                 [LoggerInfo (user_name (ctx_user ctx) @ '' declined the invitation for ''
                                @ member ps @ '' to join '' @ namespace ps @ ''@'' @ host ps
                                @ ''/'' @ name ps)]"
      by (simp add: one [OF f])
    show "length (Maintainer_objects (snd (decline ctx ps w))) = length (Maintainer_objects w)"
      by (simp add: one [OF f])
    show "\<forall>i < length (Maintainer_objects w).
                  Maintainer_objects w ! i = r \<longrightarrow>
                    modified (Maintainer_objects (snd (decline ctx ps w)) ! i) = clock w
                    \<and> active (Maintainer_objects (snd (decline ctx ps w)) ! i) = False"
      by (simp add: one [OF f])
  next
    assume "?f \<noteq> [r]"
    then show "decline ctx ps w = (Inl MultipleObjectsReturned, w)" by (rule several)
  qed
qed

theorem decline_success_effects_witness:
  "ctx_member bob_context = Some \<lparr>namespace_pk = 7\<rparr>
   \<and> ctx_pkg bob_context = Some \<lparr>package_pk = 3\<rparr>
   \<and> pending_row \<in> set (Maintainer_objects invited_world)
   \<and> filter (\<lambda>x. namespace_id x = 7 \<and> package_id x = 3 \<and> active x = True \<and> accepted x = False)
        (Maintainer_objects invited_world) = [pending_row]
   \<and> fst (decline bob_context widget_params invited_world) =
        Inr (ResponseMessage ''You have declined the invitation for bob to join acme@github/widget'')
   \<and> logger (snd (decline bob_context widget_params invited_world)) =
        [LoggerInfo ''bob declined the invitation for bob to join acme@github/widget'']
   \<and> modified (Maintainer_objects (snd (decline bob_context widget_params invited_world)) ! 1) = 1000
   \<and> active (Maintainer_objects (snd (decline bob_context widget_params invited_world)) ! 1) = False
   \<and> decline bob_context widget_params
        (invited_world\<lparr>Maintainer_objects := [pending_row, accepted_row, pending_row\<lparr>row_id := 13\<rparr>]\<rparr>)
      = (Inl MultipleObjectsReturned,
         invited_world\<lparr>Maintainer_objects := [pending_row, accepted_row, pending_row\<lparr>row_id := 13\<rparr>]\<rparr>)"
proof -
  have m: "ctx_member bob_context = Some \<lparr>namespace_pk = 7\<rparr>"
    and p: "ctx_pkg bob_context = Some \<lparr>package_pk = 3\<rparr>"
    by (simp_all add: bob_context_def)
  have r: "pending_row \<in> set (Maintainer_objects invited_world)"
    by (simp add: invited_world_def)
  have q: "namespace_id pending_row = namespace_pk \<lparr>namespace_pk = 7\<rparr>
           \<and> package_id pending_row = package_pk \<lparr>package_pk = 3\<rparr>
           \<and> active pending_row = True \<and> accepted pending_row = False"
    by (simp add: pending_row_def)
  have f: "filter (\<lambda>x. namespace_id x = 7 \<and> package_id x = 3 \<and> active x = True \<and> accepted x = False)
        (Maintainer_objects invited_world) = [pending_row]"
    by (simp add: invited_world_def pending_row_def accepted_row_def)
  have i: "Maintainer_objects invited_world ! 1 = pending_row"
          "1 < length (Maintainer_objects invited_world)"
          "logger invited_world = []" "clock invited_world = 1000"
    by (simp_all add: invited_world_def)
  have one: "fst (decline bob_context widget_params invited_world) =
        Inr (ResponseMessage ''You have declined the invitation for bob to join acme@github/widget'')
   \<and> logger (snd (decline bob_context widget_params invited_world)) =
        [LoggerInfo ''bob declined the invitation for bob to join acme@github/widget'']
   \<and> modified (Maintainer_objects (snd (decline bob_context widget_params invited_world)) ! 1) = 1000
   \<and> active (Maintainer_objects (snd (decline bob_context widget_params invited_world)) ! 1) = False"
    using decline_success_effects [OF m p r q, of widget_params] f i
    by (simp add: widget_params_def bob_context_def)
  let ?w2 = "invited_world\<lparr>Maintainer_objects := [pending_row, accepted_row, pending_row\<lparr>row_id := 13\<rparr>]\<rparr>"
  have r2: "pending_row \<in> set (Maintainer_objects ?w2)" by simp
  have f2: "filter (\<lambda>x. namespace_id x = 7 \<and> package_id x = 3 \<and> active x = True \<and> accepted x = False)
        (Maintainer_objects ?w2) \<noteq> [pending_row]"
    by (simp add: pending_row_def accepted_row_def)
  have two: "decline bob_context widget_params ?w2 = (Inl MultipleObjectsReturned, ?w2)"
    using decline_success_effects [OF m p r2 q, of widget_params] f2 by simp
  from m p r f one two show ?thesis by simp
qed

text \<open>
  Claim C10. A successful decline found a Pending row, the invitation, and changed the
  table only there: every row keeps its \<^verbatim>\<open>id\<close>, \<^verbatim>\<open>namespace_id\<close>,
  \<^verbatim>\<open>package_id\<close>, \<^verbatim>\<open>accepted\<close>, \<^verbatim>\<open>created\<close> and \<^verbatim>\<open>invited_by\<close>; a row
  with another \<^verbatim>\<open>id\<close> than the invitation's is unchanged (so, when the ids are
  distinct, every row but the invitation); and the invitation becomes itself with
  \<^verbatim>\<open>modified\<close> set to the current time and \<^verbatim>\<open>active = false\<close>, hence
  \<^verbatim>\<open>active = false\<close> and \<^verbatim>\<open>accepted = false\<close>.
\<close>

theorem decline_success_frame:
  assumes "ctx_member ctx = Some m" and "ctx_pkg ctx = Some p"
    and "decline ctx ps w = (Inr (ResponseMessage msg), w')"
  shows "\<exists>invitation \<in> set (Maintainer_objects w).
           namespace_id invitation = namespace_pk m \<and> package_id invitation = package_pk p
           \<and> active invitation = True \<and> accepted invitation = False
           \<and> length (Maintainer_objects w') = length (Maintainer_objects w)
           \<and> clock w' = clock w
           \<and> (\<forall>i < length (Maintainer_objects w).
                 row_id (Maintainer_objects w' ! i) = row_id (Maintainer_objects w ! i)
                 \<and> namespace_id (Maintainer_objects w' ! i) = namespace_id (Maintainer_objects w ! i)
                 \<and> package_id (Maintainer_objects w' ! i) = package_id (Maintainer_objects w ! i)
                 \<and> accepted (Maintainer_objects w' ! i) = accepted (Maintainer_objects w ! i)
                 \<and> created (Maintainer_objects w' ! i) = created (Maintainer_objects w ! i)
                 \<and> invited_by (Maintainer_objects w' ! i) = invited_by (Maintainer_objects w ! i)
                 \<and> (row_id (Maintainer_objects w ! i) \<noteq> row_id invitation \<longrightarrow>
                       Maintainer_objects w' ! i = Maintainer_objects w ! i)
                 \<and> (distinct (map row_id (Maintainer_objects w))
                       \<and> Maintainer_objects w ! i \<noteq> invitation \<longrightarrow>
                       Maintainer_objects w' ! i = Maintainer_objects w ! i)
                 \<and> (Maintainer_objects w ! i = invitation \<longrightarrow>
                       Maintainer_objects w' ! i = invitation\<lparr>modified := clock w, active := False\<rparr>
                       \<and> active (Maintainer_objects w' ! i) = False
                       \<and> accepted (Maintainer_objects w' ! i) = False))"
proof -
  let ?P = "\<lambda>r. namespace_id r = namespace_pk m \<and> package_id r = package_pk p
                      \<and> active r = True \<and> accepted r = False"
  from assms(3) obtain m' p' invitation where
    "ctx_member ctx = Some m'" "ctx_pkg ctx = Some p'"
    and f': "filter (\<lambda>r. namespace_id r = namespace_pk m' \<and> package_id r = package_pk p'
                      \<and> active r = True \<and> accepted r = False) (Maintainer_objects w) = [invitation]"
    by (rule decline_message_cases)
  with assms(1,2) have "m' = m" "p' = p" by simp_all
  with f' have f: "filter ?P (Maintainer_objects w) = [invitation]" by simp
  then have "invitation \<in> set (filter ?P (Maintainer_objects w))" by simp
  then have mem: "invitation \<in> set (Maintainer_objects w)" and pend: "?P invitation" by simp_all
  from decline_found [OF assms(1,2) f, of ps] assms(3)
  have w': "w' = w\<lparr>Maintainer_objects :=
          map (\<lambda>x. if row_id x = row_id invitation then x\<lparr>modified := clock w, active := False\<rparr> else x)
              (Maintainer_objects w),
        logger := logger w @
          [LoggerInfo (user_name (ctx_user ctx) @ '' declined the invitation for '' @ member ps
                         @ '' to join '' @ namespace ps @ ''@'' @ host ps @ ''/'' @ name ps)]\<rparr>"
    by simp
  have other: "row_id (Maintainer_objects w ! i) \<noteq> row_id invitation"
    if "i < length (Maintainer_objects w)" "distinct (map row_id (Maintainer_objects w))"
      "Maintainer_objects w ! i \<noteq> invitation" for i
    using that mem distinct_row_id_eq [of "Maintainer_objects w" "Maintainer_objects w ! i" invitation]
    by auto
  show ?thesis
  proof (rule bexI [OF _ mem])
    show "namespace_id invitation = namespace_pk m \<and> package_id invitation = package_pk p
           \<and> active invitation = True \<and> accepted invitation = False
           \<and> length (Maintainer_objects w') = length (Maintainer_objects w)
           \<and> clock w' = clock w
           \<and> (\<forall>i < length (Maintainer_objects w).
                 row_id (Maintainer_objects w' ! i) = row_id (Maintainer_objects w ! i)
                 \<and> namespace_id (Maintainer_objects w' ! i) = namespace_id (Maintainer_objects w ! i)
                 \<and> package_id (Maintainer_objects w' ! i) = package_id (Maintainer_objects w ! i)
                 \<and> accepted (Maintainer_objects w' ! i) = accepted (Maintainer_objects w ! i)
                 \<and> created (Maintainer_objects w' ! i) = created (Maintainer_objects w ! i)
                 \<and> invited_by (Maintainer_objects w' ! i) = invited_by (Maintainer_objects w ! i)
                 \<and> (row_id (Maintainer_objects w ! i) \<noteq> row_id invitation \<longrightarrow>
                       Maintainer_objects w' ! i = Maintainer_objects w ! i)
                 \<and> (distinct (map row_id (Maintainer_objects w))
                       \<and> Maintainer_objects w ! i \<noteq> invitation \<longrightarrow>
                       Maintainer_objects w' ! i = Maintainer_objects w ! i)
                 \<and> (Maintainer_objects w ! i = invitation \<longrightarrow>
                       Maintainer_objects w' ! i = invitation\<lparr>modified := clock w, active := False\<rparr>
                       \<and> active (Maintainer_objects w' ! i) = False
                       \<and> accepted (Maintainer_objects w' ! i) = False))"
      unfolding w' using pend other by simp
  qed
qed

theorem decline_success_frame_witness:
  "ctx_member bob_context = Some \<lparr>namespace_pk = 7\<rparr>
   \<and> ctx_pkg bob_context = Some \<lparr>package_pk = 3\<rparr>
   \<and> fst (decline bob_context widget_params invited_world) =
        Inr (ResponseMessage ''You have declined the invitation for bob to join acme@github/widget'')
   \<and> accepted (Maintainer_objects (snd (decline bob_context widget_params invited_world)) ! 1) = False
   \<and> created (Maintainer_objects (snd (decline bob_context widget_params invited_world)) ! 1) = 100
   \<and> namespace_id (Maintainer_objects (snd (decline bob_context widget_params invited_world)) ! 1) = 7"
proof -
  have d: "decline bob_context widget_params invited_world =
     (Inr (ResponseMessage ''You have declined the invitation for bob to join acme@github/widget''),
      snd (decline bob_context widget_params invited_world))"
    by (simp add: decline_def bob_context_def invited_world_def accepted_row_def pending_row_def
          objects_get_def widget_params_def)
  have m: "ctx_member bob_context = Some \<lparr>namespace_pk = 7\<rparr>"
    and p: "ctx_pkg bob_context = Some \<lparr>package_pk = 3\<rparr>"
    by (simp_all add: bob_context_def)
  have len: "1 < length (Maintainer_objects invited_world)"
    by (simp add: invited_world_def)
  from decline_success_frame [OF m p d] len
  have "accepted (Maintainer_objects (snd (decline bob_context widget_params invited_world)) ! 1)
          = accepted (Maintainer_objects invited_world ! 1)
      \<and> created (Maintainer_objects (snd (decline bob_context widget_params invited_world)) ! 1)
          = created (Maintainer_objects invited_world ! 1)
      \<and> namespace_id (Maintainer_objects (snd (decline bob_context widget_params invited_world)) ! 1)
          = namespace_id (Maintainer_objects invited_world ! 1)"
    by blast
  moreover have "Maintainer_objects invited_world ! 1 = pending_row"
    by (simp add: invited_world_def)
  moreover from d
  have "fst (decline bob_context widget_params invited_world) =
        Inr (ResponseMessage ''You have declined the invitation for bob to join acme@github/widget'')"
    by (metis fst_conv)
  ultimately show ?thesis
    using m p by (simp add: pending_row_def)
qed

section \<open>Authorization before the handler: claim C8\<close>

text \<open>
  Claim C8. In the route table invite and remove are wrapped in \<^verbatim>\<open>canWrite\<close>, accept
  and decline in \<^verbatim>\<open>isNamespaceMember\<close>. When the predicate of the decorator is false,
  the decorator returns the authorization failure and the unchanged world whatever handler
  it wraps; so each of the four routes leaves the world unchanged, and answers with the
  authorization failure when the outer lookup (of the invitee, of the package) succeeds.
\<close>

theorem authorization_short_circuits:
  "(\<not> CanWritePackage env (ctx_user ctx) (namespace ps, host ps, name ps) \<longrightarrow>
      (\<forall>next. canWrite env next ctx ps w = (Inr (failure_response Unauthorized), w))
      \<and> (\<forall>i \<in> {1, 2}.
            snd (route_handler env i ctx ps w) = w
            \<and> (NamespaceLookup env (invitee ps) \<noteq> None \<longrightarrow>
                  fst (route_handler env i ctx ps w) = Inr (failure_response Unauthorized))))
   \<and> (\<not> IsNamespaceMember env (ctx_user ctx) (member ps) \<longrightarrow>
      (\<forall>next. isNamespaceMember env next ctx ps w = (Inr (failure_response Unauthorized), w))
      \<and> (\<forall>i \<in> {3, 4}.
            snd (route_handler env i ctx ps w) = w
            \<and> (PackageLookup env (namespace ps, host ps, name ps) \<noteq> None \<longrightarrow>
                  fst (route_handler env i ctx ps w) = Inr (failure_response Unauthorized))))"
  by (auto simp: route_handler_simps findInvitee_def canWrite_def packageExists_def
        isNamespaceMember_def split: option.splits)

theorem authorization_short_circuits_witness:
  "\<not> CanWritePackage nobody_allowed (ctx_user (alice_context resolving))
        (namespace widget_params, host widget_params, name widget_params)
   \<and> \<not> IsNamespaceMember nobody_allowed (ctx_user bob_context) (member widget_params)
   \<and> route_handler nobody_allowed 1 (alice_context resolving) widget_params invited_world
       = (Inr (ResponseError ''Unauthorized'' (Num 403)), invited_world)
   \<and> route_handler nobody_allowed 4 bob_context widget_params invited_world
       = (Inr (ResponseError ''Unauthorized'' (Num 403)), invited_world)"
  using authorization_short_circuits
          [of nobody_allowed "alice_context resolving" widget_params invited_world]
        authorization_short_circuits
          [of nobody_allowed bob_context widget_params invited_world]
  by (simp add: nobody_allowed_def prod_eq_iff)

end
